theory Spec2Isabelle
  imports Main "HOL-Library.Char_ord" "HOL-Library.List_Lexorder"
begin

section \<open>The market data adapter \<^verbatim>\<open>zipline/data/bundles/sqldata.py\<close>\<close>

text \<open>
  The module reads four tables through an ORM session, puts the rows into a pandas
  table and names the columns. The embedding follows the module function by function.
  What the module imports (the ORM session, the table classes, pandas) is modelled as
  far as the module uses it; every exception of the Python is a value \<open>Inl e\<close>.
\<close>

subsection \<open>Exceptions, cells and tables\<close>

datatype error = IndexError | TypeError | ValueError | KeyError | OverflowError
  | ParserError | StatementError

text \<open>
  A cell of a table. Dates are \<^verbatim>\<open>datetime.date\<close> values, written as their proleptic
  ordinal (day 1 is 0001-01-01, the last one is 9999-12-31). Prices and volumes are
  carried through unchanged, so their type is a parameter.
\<close>

datatype 'n cell = Null | Str string | Date int | Number 'n

datatype label = Ix nat | Name string

record 'n frame =
  columns :: "label list"
  rows :: "'n cell list list"

definition date_cell :: "int option \<Rightarrow> 'n cell" where
  "date_cell d = (case d of None \<Rightarrow> Null | Some x \<Rightarrow> Date x)"

text \<open>
  \<^verbatim>\<open>pd.DataFrame.from_records(records)\<close> on a list of tuples: the columns are numbered
  from 0 by the width of the tuples; an empty list gives a table with no rows and
  no columns.
\<close>

definition from_records :: "'n cell list list \<Rightarrow> 'n frame" where
  "from_records recs =
     (case recs of
        [] \<Rightarrow> \<lparr>columns = [], rows = []\<rparr>
      | r # _ \<Rightarrow> \<lparr>columns = map Ix [0..<length r], rows = recs\<rparr>)"

text \<open>
  \<^verbatim>\<open>df.columns = names\<close>: pandas raises \<^verbatim>\<open>ValueError\<close> (length mismatch) unless
  there are as many names as the table has columns.
\<close>

definition set_columns :: "'n frame \<Rightarrow> string list \<Rightarrow> error + 'n frame" where
  "set_columns df names =
     (if length names \<noteq> length (columns df) then Inl ValueError
      else Inr (df\<lparr>columns := map Name names\<rparr>))"

text \<open>\<^verbatim>\<open>df.empty\<close>: one of the two axes has length 0.\<close>

definition df_empty :: "'n frame \<Rightarrow> bool" where
  "df_empty df = (rows df = [] \<or> columns df = [])"

fun get_loc :: "label \<Rightarrow> label list \<Rightarrow> nat option" where
  "get_loc l [] = None"
| "get_loc l (c # cs) = (if l = c then Some 0 else map_option Suc (get_loc l cs))"

text \<open>\<^verbatim>\<open>Series.map(f)\<close>: \<open>f\<close> on every value in turn; the first exception ends it.\<close>

fun series_map :: "('a \<Rightarrow> error + 'b) \<Rightarrow> 'a list \<Rightarrow> error + 'b list" where
  "series_map f [] = Inr []"
| "series_map f (x # xs) =
     (case f x of
        Inl e \<Rightarrow> Inl e
      | Inr y \<Rightarrow> (case series_map f xs of Inl e \<Rightarrow> Inl e | Inr ys \<Rightarrow> Inr (y # ys)))"

text \<open>
  \<^verbatim>\<open>df[dst] = df[src].map(f)\<close>: \<^verbatim>\<open>KeyError\<close> when \<open>src\<close> is no column; the new
  values replace the column \<open>dst\<close> if there is one and are appended as the last
  column otherwise.
\<close>

definition setitem_map ::
  "'n frame \<Rightarrow> string \<Rightarrow> string \<Rightarrow> ('n cell \<Rightarrow> error + 'n cell) \<Rightarrow> error + 'n frame" where
  "setitem_map df dst src f =
     (case get_loc (Name src) (columns df) of
        None \<Rightarrow> Inl KeyError
      | Some i \<Rightarrow>
          (case series_map f (map (\<lambda>r. r ! i) (rows df)) of
             Inl e \<Rightarrow> Inl e
           | Inr vs \<Rightarrow>
               (case get_loc (Name dst) (columns df) of
                  Some j \<Rightarrow> Inr (df\<lparr>rows := map (\<lambda>(r, v). r[j := v]) (zip (rows df) vs)\<rparr>)
                | None \<Rightarrow>
                    Inr \<lparr>columns = columns df @ [Name dst],
                         rows = map (\<lambda>(r, v). r @ [v]) (zip (rows df) vs)\<rparr>)))"

definition drop_nth :: "nat \<Rightarrow> 'a list \<Rightarrow> 'a list" where
  "drop_nth j xs = take j xs @ drop (Suc j) xs"

text \<open>
  \<^verbatim>\<open>left.merge(right, 'left', on=key)\<close>: every row of \<open>left\<close>, in order, once for each
  row of \<open>right\<close> with the same key, and once with nulls when there is none. The
  result has the columns of \<open>left\<close> and then those of \<open>right\<close> but the key. (The two
  tables this module merges share no other column, so pandas adds no suffix.)
\<close>

definition merge_left :: "'n frame \<Rightarrow> 'n frame \<Rightarrow> string \<Rightarrow> error + 'n frame" where
  "merge_left left right on =
     (case get_loc (Name on) (columns left) of
        None \<Rightarrow> Inl KeyError
      | Some i \<Rightarrow>
          (case get_loc (Name on) (columns right) of
             None \<Rightarrow> Inl KeyError
           | Some j \<Rightarrow>
               Inr \<lparr>columns = columns left @ drop_nth j (columns right),
                    rows = concat (map (\<lambda>l.
                      (case filter (\<lambda>r. r ! j = l ! i) (rows right) of
                         [] \<Rightarrow> [l @ replicate (length (columns right) - 1) Null]
                       | ms \<Rightarrow> map (\<lambda>r. l @ drop_nth j r) ms)) (rows left))\<rparr>))"

subsection \<open>The backing store and the session\<close>

text \<open>
  Modelled from the spec: the table classes of \<^verbatim>\<open>cswd.sql.models\<close> are not part of the
  sources. Each row has the fields the module reads, under the names the module uses
  (\<open>A004\<close> of an issue is the listing date, \<open>A001\<close> of a daily bar the display name).
  The treatment kinds are \<open>delisting\<close>, \<open>PT\<close> and others.
\<close>

datatype SpecialTreatmentType = delisting | PT | other_treatment nat

record Issue =
  issue_code :: string
  issue_A004 :: "int option"

record SpecialTreatment =
  st_code :: string
  st_date :: int
  st_treatment :: SpecialTreatmentType

record 'n StockDaily =
  sd_code :: string
  sd_date :: int
  sd_A001 :: string
  sd_A002 :: 'n
  sd_A003 :: 'n
  sd_A004 :: 'n
  sd_A005 :: 'n
  sd_A006 :: 'n
  sd_A007 :: 'n
  sd_A008 :: 'n
  sd_A009 :: 'n
  sd_A011 :: 'n
  sd_A012 :: 'n
  sd_A013 :: 'n

record 'n Adjustment =
  adj_code :: string
  adj_date :: int
  adj_A002 :: 'n
  adj_A003 :: 'n
  adj_A004 :: "int option"
  adj_A005 :: "int option"
  adj_A006 :: "int option"

text \<open>
  The backing store: the four tables in their stored order, and the one thing the
  queries leave to the engine. A grouped query that names a column outside an
  aggregate (\<^verbatim>\<open>having(SpecialTreatment.treatment.in_(...))\<close>, the display name beside
  \<^verbatim>\<open>min\<close> and \<^verbatim>\<open>max\<close>) reads that column from one row of the group, of the engine's
  choosing: \<open>bare_treatment\<close> and \<open>bare_daily\<close> give the position of the row, taken
  modulo the size of the group.
\<close>

record 'n db =
  issues :: "Issue list"
  treatments :: "SpecialTreatment list"
  dailies :: "'n StockDaily list"
  adjustments :: "'n Adjustment list"
  bare_treatment :: "SpecialTreatment list \<Rightarrow> nat"
  bare_daily :: "'n StockDaily list \<Rightarrow> nat"

definition bare_row :: "('r list \<Rightarrow> nat) \<Rightarrow> 'r list \<Rightarrow> 'r" where
  "bare_row pick g = g ! (pick g mod length g)"

text \<open>
  SQLite's rule for a query with a single \<^verbatim>\<open>max()\<close>: the bare columns come from the
  row that holds the maximum (the first such row here).
\<close>

definition row_of_max :: "('r \<Rightarrow> int) \<Rightarrow> 'r list \<Rightarrow> nat" where
  "row_of_max f g = length (takeWhile (\<lambda>r. f r \<noteq> Max (set (map f g))) g)"

text \<open>
  \<^verbatim>\<open>group_by(key)\<close>: the rows of each key value, one group a key, the groups in the
  order of their keys (SQLite sorts the rows by the key to form the groups; symbols
  compare byte by byte).
\<close>

definition group_by :: "('r \<Rightarrow> 'k::linorder) \<Rightarrow> 'r list \<Rightarrow> ('k \<times> 'r list) list" where
  "group_by key rs =
     map (\<lambda>k. (k, filter (\<lambda>r. key r = k) rs)) (sort (remdups (map key rs)))"

text \<open>
  Names for what the grouped queries read: the group of a symbol in each of the two
  grouped tables, and the row of a symbol's group on which the engine evaluates the
  \<^verbatim>\<open>having\<close> clause of \<open>get_end_dates\<close>.
\<close>

definition events_of :: "'n db \<Rightarrow> string \<Rightarrow> SpecialTreatment list" where
  "events_of db k = filter (\<lambda>ev. st_code ev = k) (treatments db)"

definition having_row :: "'n db \<Rightarrow> string \<Rightarrow> SpecialTreatment" where
  "having_row db k = bare_row (bare_treatment db) (events_of db k)"

definition bars_of :: "'n db \<Rightarrow> string \<Rightarrow> 'n StockDaily list" where
  "bars_of db k = filter (\<lambda>r. sd_code r = k) (dailies db)"

text \<open>
  Modelled from the spec: \<^verbatim>\<open>cswd.sql.base.session_scope\<close> is not part of the sources.
  The session is acquired on entry and released on every exit, committing after a
  body that returns and rolling back after one that raises. What a call does to the
  store is the list of events it appends.
\<close>

datatype event = Acquire | Query | Commit | Rollback | Release

type_synonym 'a io = "event list \<Rightarrow> (error + 'a) \<times> event list"

definition session_scope :: "'a io \<Rightarrow> 'a io" where
  "session_scope body t =
     (case body (t @ [Acquire]) of
        (Inl e, t') \<Rightarrow> (Inl e, t' @ [Rollback, Release])
      | (Inr v, t') \<Rightarrow> (Inr v, t' @ [Commit, Release]))"

text \<open>\<^verbatim>\<open>query.all()\<close>: one round trip to the store, which hands back the rows.\<close>

definition query_all :: "'r list \<Rightarrow> event list \<Rightarrow> 'r list \<times> event list" where
  "query_all rs t = (rs, t @ [Query])"

text \<open>
  \<^verbatim>\<open>pd.Timestamp(x)\<close> has three outcomes: it raises, it is \<^verbatim>\<open>NaT\<close> (for the empty
  string, \<^verbatim>\<open>None\<close> and the like), or it is an instant, a day and a time of day. Which
  value has which outcome is left open: the two fetch functions below take the
  constructor as their first argument. \<^verbatim>\<open>.date()\<close> keeps the day of an instant and
  keeps \<^verbatim>\<open>NaT\<close>, written \<open>None\<close>; it never raises.
\<close>

record timestamp =
  day :: int
  time_of_day :: nat

datatype stamp = NaT | At timestamp

definition date :: "stamp \<Rightarrow> int option" where
  "date x = (case x of NaT \<Rightarrow> None | At ts \<Rightarrow> Some (day ts))"

text \<open>
  The two bounds of \<^verbatim>\<open>between(start, end)\<close> are parameters of the statement. A
  \<^verbatim>\<open>NaT\<close> cannot be bound as a date: building the query raises nothing, and
  \<^verbatim>\<open>query.all()\<close> raises before any row is handed back.
\<close>

definition bind_dates :: "int option \<Rightarrow> int option \<Rightarrow> error + int \<times> int" where
  "bind_dates lo hi =
     (case lo of
        None \<Rightarrow> Inl StatementError
      | Some a \<Rightarrow> (case hi of None \<Rightarrow> Inl StatementError | Some b \<Rightarrow> Inr (a, b)))"

text \<open>
  \<^verbatim>\<open>x + pd.Timedelta(days=n)\<close> for a \<^verbatim>\<open>datetime.date\<close> \<open>x\<close>; Python raises
  \<^verbatim>\<open>OverflowError\<close> past 9999-12-31 and \<^verbatim>\<open>TypeError\<close> when \<open>x\<close> is no date.
\<close>

definition add_days :: "'n cell \<Rightarrow> int \<Rightarrow> error + 'n cell" where
  "add_days x n =
     (case x of
        Date d \<Rightarrow> (if 1 \<le> d + n \<and> d + n \<le> 3652059 then Inr (Date (d + n)) else Inl OverflowError)
      | _ \<Rightarrow> Inl TypeError)"

subsection \<open>The module\<close>

definition DAILY_COLS :: "string list" where
  "DAILY_COLS = [''symbol'', ''date'',
                 ''open'', ''high'', ''low'', ''close'',
                 ''prev_close'', ''change_pct'',
                 ''volume'', ''amount'', ''turnover'', ''cmv'', ''tmv'']"

definition ADJUSTMENT_COLS :: "string list" where
  "ADJUSTMENT_COLS = [''symbol'', ''date'', ''amount'', ''ratio'',
                      ''record_date'', ''pay_date'', ''listing_date'']"

text \<open>\<^verbatim>\<open>code[0]\<close> raises \<^verbatim>\<open>IndexError\<close> on the empty string.\<close>

definition get_exchange :: "string \<Rightarrow> error + string" where
  "get_exchange code =
     (case code of
        [] \<Rightarrow> Inl IndexError
      | c # _ \<Rightarrow> (if c \<in> {CHR ''0'', CHR ''3''} then Inr ''SZSE'' else Inr ''SSE''))"

text \<open>The function on a value of a column: anything but a string has no \<^verbatim>\<open>[0]\<close>
  (\<^verbatim>\<open>TypeError\<close>).\<close>

definition get_exchange_cell :: "'n cell \<Rightarrow> error + 'n cell" where
  "get_exchange_cell x =
     (case x of
        Str code \<Rightarrow> (case get_exchange code of Inl e \<Rightarrow> Inl e | Inr ex \<Rightarrow> Inr (Str ex))
      | _ \<Rightarrow> Inl TypeError)"

definition get_start_dates :: "'n db \<Rightarrow> 'n frame io" where
  "get_start_dates db =
     session_scope (\<lambda>t.
       let col_names = [''symbol'', ''start_date''];
           query = map (\<lambda>r. [Str (issue_code r), date_cell (issue_A004 r)])
                     (filter (\<lambda>r. issue_A004 r \<noteq> None) (issues db));
           (recs, t') = query_all query t;
           df = from_records recs
       in (set_columns df col_names, t'))"

definition get_end_dates :: "'n db \<Rightarrow> 'n frame io" where
  "get_end_dates db =
     session_scope (\<lambda>t.
       let col_names = [''symbol'', ''end_date''];
           query = map (\<lambda>(k, g). [Str k, Date (Max (set (map st_date g)))])
                     (filter (\<lambda>(k, g). st_treatment (bare_row (bare_treatment db) g)
                                          \<in> {delisting, PT})
                        (group_by st_code (treatments db)));
           (recs, t') = query_all query t;
           df = from_records recs
       in (set_columns df col_names, t'))"

definition gen_asset_metadata :: "'n db \<Rightarrow> 'n frame io" where
  "gen_asset_metadata db =
     session_scope (\<lambda>t.
       let columns = [''symbol'', ''asset_name'', ''first_traded'', ''last_traded''];
           query = map (\<lambda>(k, g). [Str k, Str (sd_A001 (bare_row (bare_daily db) g)),
                                   Date (Min (set (map sd_date g))),
                                   Date (Max (set (map sd_date g)))])
                     (group_by sd_code (dailies db));
           (recs, t1) = query_all query t;
           df = from_records recs
       in case set_columns df columns of
            Inl e \<Rightarrow> (Inl e, t1)
          | Inr df1 \<Rightarrow>
          (case setitem_map df1 ''exchange'' ''symbol'' get_exchange_cell of
            Inl e \<Rightarrow> (Inl e, t1)
          | Inr df2 \<Rightarrow>
          (case setitem_map df2 ''auto_close_date'' ''last_traded'' (\<lambda>x. add_days x 1) of
            Inl e \<Rightarrow> (Inl e, t1)
          | Inr df3 \<Rightarrow>
          (case get_start_dates db t1 of
            (Inl e, t2) \<Rightarrow> (Inl e, t2)
          | (Inr start_dates, t2) \<Rightarrow>
          (case get_end_dates db t2 of
            (Inl e, t3) \<Rightarrow> (Inl e, t3)
          | (Inr end_dates, t3) \<Rightarrow>
              (case merge_left df3 start_dates ''symbol'' of
                 Inl e \<Rightarrow> (Inl e, t3)
               | Inr m \<Rightarrow> (merge_left m end_dates ''symbol'', t3)))))))"

definition daily_record :: "'n StockDaily \<Rightarrow> 'n cell list" where
  "daily_record r =
     [Str (sd_code r), Date (sd_date r),
      Number (sd_A002 r), Number (sd_A003 r), Number (sd_A004 r), Number (sd_A005 r),
      Number (sd_A009 r), Number (sd_A011 r),
      Number (sd_A006 r), Number (sd_A007 r), Number (sd_A008 r),
      Number (sd_A013 r), Number (sd_A012 r)]"

definition fetch_single_equity ::
  "('d \<Rightarrow> error + stamp) \<Rightarrow> 'n db \<Rightarrow> string \<Rightarrow> 'd \<Rightarrow> 'd \<Rightarrow> 'n frame io" where
  "fetch_single_equity Timestamp db stock_code start end t =
     (case Timestamp start of
        Inl e \<Rightarrow> (Inl e, t)
      | Inr s \<Rightarrow>
     (case Timestamp end of
        Inl e \<Rightarrow> (Inl e, t)
      | Inr e \<Rightarrow>
          session_scope (\<lambda>t.
            case bind_dates (date s) (date e) of
              Inl err \<Rightarrow> (Inl err, t)
            | Inr (lo, hi) \<Rightarrow>
                let query = map daily_record
                              (filter (\<lambda>r. lo \<le> sd_date r \<and> sd_date r \<le> hi)
                                 (filter (\<lambda>r. sd_code r = stock_code) (dailies db)));
                    (recs, t') = query_all query t;
                    df = from_records recs
                in (set_columns df DAILY_COLS, t')) t))"

definition adjustment_record :: "'n Adjustment \<Rightarrow> 'n cell list" where
  "adjustment_record r =
     [Str (adj_code r), Date (adj_date r),
      Number (adj_A002 r), Number (adj_A003 r),
      date_cell (adj_A004 r), date_cell (adj_A005 r), date_cell (adj_A006 r)]"

definition fetch_single_quity_adjustments ::
  "('d \<Rightarrow> error + stamp) \<Rightarrow> 'n db \<Rightarrow> string \<Rightarrow> 'd \<Rightarrow> 'd \<Rightarrow> 'n frame io" where
  "fetch_single_quity_adjustments Timestamp db stock_code start end t =
     (case Timestamp start of
        Inl e \<Rightarrow> (Inl e, t)
      | Inr s \<Rightarrow>
     (case Timestamp end of
        Inl e \<Rightarrow> (Inl e, t)
      | Inr e \<Rightarrow>
          session_scope (\<lambda>t.
            case bind_dates (date s) (date e) of
              Inl err \<Rightarrow> (Inl err, t)
            | Inr (lo, hi) \<Rightarrow>
                let query = map adjustment_record
                              (filter (\<lambda>r. lo \<le> adj_date r \<and> adj_date r \<le> hi)
                                 (filter (\<lambda>r. adj_code r = stock_code) (adjustments db)));
                    (recs, t') = query_all query t;
                    df = from_records recs
                in if df_empty df then (Inr df, t')
                   else (set_columns df ADJUSTMENT_COLS, t')) t))"

subsection \<open>A small store\<close>

text \<open>
  A store to run the module on: an engine that follows SQLite's rule for bare columns,
  a constructor of timestamps that raises on an unreadable value, gives \<^verbatim>\<open>NaT\<close> for a
  blank one and reads an instant from a day and a time of day, and a few rows. Symbol 000003 was flagged PT and then delisted;
  symbol 000004 was flagged PT and later resumed trading.
\<close>

datatype datelike = Unreadable | Blank | Instant int nat

definition stamp_of :: "datelike \<Rightarrow> error + stamp" where
  "stamp_of x =
     (case x of
        Unreadable \<Rightarrow> Inl ParserError
      | Blank \<Rightarrow> Inr NaT
      | Instant d n \<Rightarrow> Inr (At \<lparr>day = d, time_of_day = n\<rparr>))"

definition bar :: "string \<Rightarrow> int \<Rightarrow> string \<Rightarrow> int StockDaily" where
  "bar code d nm =
     \<lparr>sd_code = code, sd_date = d, sd_A001 = nm,
      sd_A002 = 5330, sd_A003 = 5500, sd_A004 = 5268, sd_A005 = 5284,
      sd_A006 = 100, sd_A007 = 528400, sd_A008 = 1, sd_A009 = 5453,
      sd_A011 = - 3, sd_A012 = 2000000, sd_A013 = 1000000\<rparr>"

definition example_db :: "int db" where
  "example_db =
     \<lparr>issues =
        [\<lparr>issue_code = ''000001'', issue_A004 = Some 726925\<rparr>,
         \<lparr>issue_code = ''000003'', issue_A004 = Some 726846\<rparr>,
         \<lparr>issue_code = ''600000'', issue_A004 = None\<rparr>],
      treatments =
        [\<lparr>st_code = ''000003'', st_date = 730614, st_treatment = PT\<rparr>,
         \<lparr>st_code = ''000003'', st_date = 731015, st_treatment = delisting\<rparr>,
         \<lparr>st_code = ''000004'', st_date = 730614, st_treatment = PT\<rparr>,
         \<lparr>st_code = ''000004'', st_date = 730824, st_treatment = other_treatment 0\<rparr>],
      dailies =
        [bar ''000001'' 726834 ''PAYH'',
         bar ''000003'' 726834 ''JTA'',
         bar ''000001'' 736801 ''PAYH'',
         bar ''000003'' 730966 ''PTJTA'',
         bar ''600000'' 736786 ''PFYH'',
         bar ''600000'' 736800 ''PFYH''],
      adjustments =
        [\<lparr>adj_code = ''600000'', adj_date = 733933, adj_A002 = 150, adj_A003 = 3,
          adj_A004 = Some 733932, adj_A005 = Some 733934, adj_A006 = Some 733933\<rparr>,
         \<lparr>adj_code = ''600000'', adj_date = 736474, adj_A002 = 200, adj_A003 = 3,
          adj_A004 = Some 736473, adj_A005 = Some 736475, adj_A006 = None\<rparr>,
         \<lparr>adj_code = ''000001'', adj_date = 733933, adj_A002 = 100, adj_A003 = 0,
          adj_A004 = None, adj_A005 = None, adj_A006 = None\<rparr>],
      bare_treatment = row_of_max st_date,
      bare_daily = row_of_max sd_date\<rparr>"

definition example_metadata :: "int frame" where
  "example_metadata =
     \<lparr>columns = [Name ''symbol'', Name ''asset_name'', Name ''first_traded'',
                 Name ''last_traded'', Name ''exchange'', Name ''auto_close_date'',
                 Name ''start_date'', Name ''end_date''],
      rows = [[Str ''000001'', Str ''PAYH'', Date 726834, Date 736801,
               Str ''SZSE'', Date 736802, Date 726925, Null],
              [Str ''000003'', Str ''PTJTA'', Date 726834, Date 730966,
               Str ''SZSE'', Date 730967, Date 726846, Date 731015],
              [Str ''600000'', Str ''PFYH'', Date 736786, Date 736800,
               Str ''SSE'', Date 736801, Null, Null]]\<rparr>"

section \<open>Properties\<close>

lemmas run_defs = session_scope_def query_all_def from_records_def set_columns_def

lemmas example_defs = example_db_def bar_def stamp_of_def date_def group_by_def
  bare_row_def row_of_max_def date_cell_def

subsection \<open>Naming the columns of a query result\<close>

text \<open>
  A query that hands back no row gives a table without columns, and naming its columns
  raises. A query that hands back rows of the right width gives the named table.
\<close>

lemma set_columns_from_records_Nil:
  "names \<noteq> [] \<Longrightarrow> set_columns (from_records []) names = Inl ValueError"
  by (simp add: set_columns_def from_records_def)

lemma set_columns_from_records:
  "recs \<noteq> [] \<Longrightarrow> length (hd recs) = length names \<Longrightarrow>
   set_columns (from_records recs) names = Inr \<lparr>columns = map Name names, rows = recs\<rparr>"
  by (cases recs) (simp_all add: set_columns_def from_records_def)

lemma set_columns_Inr:
  "set_columns df names = Inr df' \<Longrightarrow> columns df' = map Name names \<and> rows df' = rows df"
  by (auto simp: set_columns_def split: if_splits)

subsection \<open>The exchange of a symbol\<close>

text \<open>
  C9. \<open>get_exchange\<close> reads the first character with no guard for the empty string:
  on the empty string it raises \<^verbatim>\<open>IndexError\<close> and returns nothing, and on every
  string with a first character it returns \<^verbatim>\<open>"SZSE"\<close> or \<^verbatim>\<open>"SSE"\<close>.
\<close>

theorem get_exchange_total_on_nonempty:
  "get_exchange [] = Inl IndexError \<and>
   (\<forall>c cs. get_exchange (c # cs) = Inr ''SZSE'' \<or> get_exchange (c # cs) = Inr ''SSE'')"
  by (simp add: get_exchange_def)

theorem get_exchange_total_on_nonempty_witness:
  "get_exchange ''000001'' = Inr ''SZSE'' \<and> get_exchange ''600000'' = Inr ''SSE'' \<and>
   get_exchange [] = Inl IndexError"
  using get_exchange_total_on_nonempty by (simp add: get_exchange_def)

subsection \<open>Listing dates\<close>

text \<open>
  With at least one issue that has a listing date, \<open>get_start_dates\<close> returns the
  symbol and the listing date of exactly the issues that have one, in stored order.
\<close>

lemma get_start_dates_rows:
  assumes "filter (\<lambda>r. issue_A004 r \<noteq> None) (issues db) \<noteq> []"
  shows "get_start_dates db t =
     (Inr \<lparr>columns = [Name ''symbol'', Name ''start_date''],
           rows = map (\<lambda>r. [Str (issue_code r), date_cell (issue_A004 r)])
                    (filter (\<lambda>r. issue_A004 r \<noteq> None) (issues db))\<rparr>,
      t @ [Acquire, Query, Commit, Release])"
proof -
  let ?recs = "map (\<lambda>r. [Str (issue_code r), date_cell (issue_A004 r)])
                 (filter (\<lambda>r. issue_A004 r \<noteq> None) (issues db))"
  from assms have "?recs \<noteq> []" and "length (hd ?recs) = length [''symbol'', ''start_date'']"
    by (simp_all add: hd_map)
  then have sc: "set_columns (from_records ?recs) [''symbol'', ''start_date'']
      = Inr \<lparr>columns = map Name [''symbol'', ''start_date''], rows = ?recs\<rparr>"
    by (rule set_columns_from_records)
  show ?thesis
    unfolding get_start_dates_def
    by (simp only: session_scope_def query_all_def Let_def prod.case sc sum.case
        append_assoc append.simps list.map)
qed

text \<open>
  C8. The claim has \<open>get_start_dates\<close> return a sequence that may be empty. When no
  issue has a listing date the query hands back no row, the table has no column, and
  naming its two columns raises \<^verbatim>\<open>ValueError\<close>: the function rolls back and returns
  nothing.
\<close>

theorem get_start_dates_empty_raises:
  "filter (\<lambda>r. issue_A004 r \<noteq> None) (issues db) = [] \<Longrightarrow>
   get_start_dates db t = (Inl ValueError, t @ [Acquire, Query, Rollback, Release])"
  by (simp add: get_start_dates_def session_scope_def query_all_def
      set_columns_from_records_Nil)

theorem get_start_dates_empty_raises_witness:
  "filter (\<lambda>r. issue_A004 r \<noteq> None)
     (issues (example_db\<lparr>issues := [\<lparr>issue_code = ''600000'', issue_A004 = None\<rparr>]\<rparr>)) = [] \<and>
   get_start_dates (example_db\<lparr>issues := [\<lparr>issue_code = ''600000'', issue_A004 = None\<rparr>]\<rparr>) []
     = (Inl ValueError, [Acquire, Query, Rollback, Release])"
  using get_start_dates_empty_raises
    [of "example_db\<lparr>issues := [\<lparr>issue_code = ''600000'', issue_A004 = None\<rparr>]\<rparr>" "[]"]
  by simp

subsection \<open>Daily bars of one symbol\<close>

text \<open>
  With dates that parse and at least one matching row, \<open>fetch_single_equity\<close> returns
  the thirteen columns and exactly the rows of the symbol whose date lies between the
  day of \<open>start\<close> and the day of \<open>end\<close>, both included, in stored order.
\<close>

lemma fetch_single_equity_rows:
  assumes "Timestamp start = Inr (At s)" and "Timestamp end = Inr (At e)"
    and "filter (\<lambda>r. sd_code r = stock_code \<and> day s \<le> sd_date r \<and> sd_date r \<le> day e)
           (dailies db) \<noteq> []"
  shows "fetch_single_equity Timestamp db stock_code start end t =
     (Inr \<lparr>columns = [Name ''symbol'', Name ''date'', Name ''open'', Name ''high'',
                      Name ''low'', Name ''close'', Name ''prev_close'', Name ''change_pct'',
                      Name ''volume'', Name ''amount'', Name ''turnover'', Name ''cmv'',
                      Name ''tmv''],
           rows = map daily_record
             (filter (\<lambda>r. sd_code r = stock_code \<and> day s \<le> sd_date r \<and> sd_date r \<le> day e)
                (dailies db))\<rparr>,
      t @ [Acquire, Query, Commit, Release])"
proof -
  let ?m = "filter (\<lambda>r. sd_code r = stock_code \<and> day s \<le> sd_date r \<and> sd_date r \<le> day e)
              (dailies db)"
  obtain r rs where m: "?m = r # rs"
    using assms(3) by (cases ?m) auto
  have "set_columns (from_records (map daily_record ?m)) DAILY_COLS
        = Inr \<lparr>columns = map Name DAILY_COLS, rows = map daily_record ?m\<rparr>"
    unfolding m by (simp add: set_columns_def from_records_def daily_record_def DAILY_COLS_def)
  then show ?thesis
    using assms(1,2) unfolding fetch_single_equity_def
    by (simp add: session_scope_def query_all_def DAILY_COLS_def date_def bind_dates_def)
qed

text \<open>
  C2. The claim has \<open>fetch_single_equity\<close> return an empty sequence, with no error,
  when no row matches. The function names the thirteen columns of a table that has
  none: it raises \<^verbatim>\<open>ValueError\<close>, rolls back and returns nothing.
  \<open>fetch_single_quity_adjustments\<close> guards the same assignment with \<^verbatim>\<open>df.empty\<close>.
\<close>

theorem fetch_single_equity_no_match_raises:
  "Timestamp start = Inr (At s) \<Longrightarrow> Timestamp end = Inr (At e) \<Longrightarrow>
   filter (\<lambda>r. sd_code r = stock_code \<and> day s \<le> sd_date r \<and> sd_date r \<le> day e)
     (dailies db) = [] \<Longrightarrow>
   fetch_single_equity Timestamp db stock_code start end t
     = (Inl ValueError, t @ [Acquire, Query, Rollback, Release])"
  by (simp add: fetch_single_equity_def session_scope_def query_all_def date_def
      bind_dates_def set_columns_from_records_Nil DAILY_COLS_def filter_empty_conv)

theorem fetch_single_equity_no_match_raises_witness:
  "stamp_of (Instant 736785 0) = Inr (At \<lparr>day = 736785, time_of_day = 0\<rparr>) \<and>
   stamp_of (Instant 736800 0) = Inr (At \<lparr>day = 736800, time_of_day = 0\<rparr>) \<and>
   filter (\<lambda>r. sd_code r = ''000333'' \<and> 736785 \<le> sd_date r \<and> sd_date r \<le> 736800)
     (dailies example_db) = [] \<and>
   fetch_single_equity stamp_of example_db ''000333'' (Instant 736785 0) (Instant 736800 0) []
     = (Inl ValueError, [Acquire, Query, Rollback, Release])"
  using fetch_single_equity_no_match_raises
    [of stamp_of "Instant 736785 0" "\<lparr>day = 736785, time_of_day = 0\<rparr>"
        "Instant 736800 0" "\<lparr>day = 736800, time_of_day = 0\<rparr>" "''000333''" example_db "[]"]
  by (simp add: example_defs)

text \<open>
  C5. The claim has \<open>fetch_single_equity\<close> return, for every symbol and range, exactly
  the rows of the symbol in the range. Symbol 600000 has bars on 2018-04-02 and
  2018-04-16; asked for 2018-04-17 to 2018-04-18 the function does not return the
  empty selection, it raises \<^verbatim>\<open>ValueError\<close>.
\<close>

theorem fetch_single_equity_out_of_range_raises:
  "fetch_single_equity stamp_of example_db ''600000'' (Instant 736801 0) (Instant 736802 0) []
     = (Inl ValueError, [Acquire, Query, Rollback, Release])"
  by (simp add: fetch_single_equity_def run_defs example_defs bind_dates_def DAILY_COLS_def)

subsection \<open>Adjustments of one symbol\<close>

text \<open>
  C4. For dates that parse, \<open>fetch_single_quity_adjustments\<close> returns a table with no
  rows and no columns when no adjustment of the symbol has its ex-date between the day
  of \<open>start\<close> and the day of \<open>end\<close>; otherwise it returns the seven columns symbol,
  date, amount, ratio, record_date, pay_date, listing_date and one row for each
  matching adjustment, so that the (symbol, ex-date) pairs of the rows are those of the
  matching adjustments.
\<close>

theorem fetch_single_quity_adjustments_schema:
  assumes "Timestamp start = Inr (At s)" and "Timestamp end = Inr (At e)"
  shows "let matching = filter (\<lambda>r. adj_code r = stock_code \<and>
                                    day s \<le> adj_date r \<and> adj_date r \<le> day e)
                          (adjustments db)
         in fetch_single_quity_adjustments Timestamp db stock_code start end t =
              (Inr (if matching = [] then \<lparr>columns = [], rows = []\<rparr>
                    else \<lparr>columns = [Name ''symbol'', Name ''date'', Name ''amount'',
                                     Name ''ratio'', Name ''record_date'', Name ''pay_date'',
                                     Name ''listing_date''],
                          rows = map adjustment_record matching\<rparr>),
               t @ [Acquire, Query, Commit, Release]) \<and>
            map (\<lambda>r. (r ! 0, r ! 1)) (map adjustment_record matching)
              = map (\<lambda>a. (Str stock_code, Date (adj_date a))) matching"
proof -
  let ?m = "filter (\<lambda>r. adj_code r = stock_code \<and> day s \<le> adj_date r \<and> adj_date r \<le> day e)
              (adjustments db)"
  have run: "fetch_single_quity_adjustments Timestamp db stock_code start end t =
     (Inr (if ?m = [] then \<lparr>columns = [], rows = []\<rparr>
           else \<lparr>columns = [Name ''symbol'', Name ''date'', Name ''amount'',
                            Name ''ratio'', Name ''record_date'', Name ''pay_date'',
                            Name ''listing_date''],
                 rows = map adjustment_record ?m\<rparr>),
      t @ [Acquire, Query, Commit, Release])"
  proof (cases ?m)
    case Nil
    then show ?thesis
      using assms unfolding fetch_single_quity_adjustments_def
      by (simp add: session_scope_def query_all_def from_records_def df_empty_def date_def
          bind_dates_def)
  next
    case (Cons r rs)
    then show ?thesis
      using assms unfolding fetch_single_quity_adjustments_def
      by (simp add: session_scope_def query_all_def from_records_def df_empty_def date_def
          bind_dates_def set_columns_def adjustment_record_def ADJUSTMENT_COLS_def)
  qed
  have keys: "map (\<lambda>r. (r ! 0, r ! 1)) (map adjustment_record ?m)
              = map (\<lambda>a. (Str stock_code, Date (adj_date a))) ?m"
    by (simp add: adjustment_record_def)
  show ?thesis
    unfolding Let_def using run keys by blast
qed

theorem fetch_single_quity_adjustments_schema_witness:
  "stamp_of (Instant 733863 0) = Inr (At \<lparr>day = 733863, time_of_day = 0\<rparr>) \<and>
   stamp_of (Instant 736800 54000) = Inr (At \<lparr>day = 736800, time_of_day = 54000\<rparr>) \<and>
   fetch_single_quity_adjustments stamp_of example_db ''600000''
       (Instant 733863 0) (Instant 736800 54000) [] =
     (Inr \<lparr>columns = [Name ''symbol'', Name ''date'', Name ''amount'', Name ''ratio'',
                      Name ''record_date'', Name ''pay_date'', Name ''listing_date''],
           rows = [[Str ''600000'', Date 733933, Number 150, Number 3,
                    Date 733932, Date 733934, Date 733933],
                   [Str ''600000'', Date 736474, Number 200, Number 3,
                    Date 736473, Date 736475, Null]]\<rparr>,
      [Acquire, Query, Commit, Release]) \<and>
   fetch_single_quity_adjustments stamp_of example_db ''000333''
       (Instant 733863 0) (Instant 736800 54000) [] =
     (Inr \<lparr>columns = [], rows = []\<rparr>, [Acquire, Query, Commit, Release])"
  using fetch_single_quity_adjustments_schema
    [of stamp_of "Instant 733863 0" "\<lparr>day = 733863, time_of_day = 0\<rparr>"
        "Instant 736800 54000" "\<lparr>day = 736800, time_of_day = 54000\<rparr>"
        "''600000''" example_db "[]"]
    fetch_single_quity_adjustments_schema
    [of stamp_of "Instant 733863 0" "\<lparr>day = 733863, time_of_day = 0\<rparr>"
        "Instant 736800 54000" "\<lparr>day = 736800, time_of_day = 54000\<rparr>"
        "''000333''" example_db "[]"]
  by (simp add: example_defs adjustment_record_def Let_def)

subsection \<open>Dates that are not dates\<close>

text \<open>
  C10, as the code has it. Both fetch functions read \<open>start\<close> and \<open>end\<close> before they
  enter the session scope. When \<^verbatim>\<open>pd.Timestamp\<close> raises on \<open>start\<close>, or on \<open>end\<close>
  after \<open>start\<close> was read, the error reaches the caller and the call appends no
  event: no session is acquired and no query is sent. When \<^verbatim>\<open>pd.Timestamp\<close> reads
  both and one of them is \<^verbatim>\<open>NaT\<close>, nothing is raised before the scope: the session is
  acquired, the statement fails when it is executed, and the scope rolls back and
  releases the session. When both are instants, the first two events of the call are
  the acquisition of the session and the query.
\<close>

theorem raising_dates_acquire_no_session:
  "(Timestamp start = Inl err \<longrightarrow>
      fetch_single_equity Timestamp db stock_code start end t = (Inl err, t) \<and>
      fetch_single_quity_adjustments Timestamp db stock_code start end t = (Inl err, t)) \<and>
   (Timestamp start = Inr x \<and> Timestamp end = Inl err \<longrightarrow>
      fetch_single_equity Timestamp db stock_code start end t = (Inl err, t) \<and>
      fetch_single_quity_adjustments Timestamp db stock_code start end t = (Inl err, t)) \<and>
   (Timestamp start = Inr x \<and> Timestamp end = Inr y \<and> (x = NaT \<or> y = NaT) \<longrightarrow>
      fetch_single_equity Timestamp db stock_code start end t
        = (Inl StatementError, t @ [Acquire, Rollback, Release]) \<and>
      fetch_single_quity_adjustments Timestamp db stock_code start end t
        = (Inl StatementError, t @ [Acquire, Rollback, Release])) \<and>
   (Timestamp start = Inr (At s) \<and> Timestamp end = Inr (At e) \<longrightarrow>
      take 2 (drop (length t) (snd (fetch_single_equity Timestamp db stock_code start end t)))
        = [Acquire, Query] \<and>
      take 2 (drop (length t)
                (snd (fetch_single_quity_adjustments Timestamp db stock_code start end t)))
        = [Acquire, Query])"
proof (intro conjI impI)
  assume "Timestamp start = Inl err"
  then show "fetch_single_equity Timestamp db stock_code start end t = (Inl err, t)"
    and "fetch_single_quity_adjustments Timestamp db stock_code start end t = (Inl err, t)"
    by (simp_all add: fetch_single_equity_def fetch_single_quity_adjustments_def)
next
  assume "Timestamp start = Inr x \<and> Timestamp end = Inl err"
  then show "fetch_single_equity Timestamp db stock_code start end t = (Inl err, t)"
    and "fetch_single_quity_adjustments Timestamp db stock_code start end t = (Inl err, t)"
    by (simp_all add: fetch_single_equity_def fetch_single_quity_adjustments_def)
next
  assume a: "Timestamp start = Inr x \<and> Timestamp end = Inr y \<and> (x = NaT \<or> y = NaT)"
  then have "bind_dates (date x) (date y) = Inl StatementError"
    by (auto simp: bind_dates_def date_def split: stamp.splits option.splits)
  with a show "fetch_single_equity Timestamp db stock_code start end t
        = (Inl StatementError, t @ [Acquire, Rollback, Release])"
    and "fetch_single_quity_adjustments Timestamp db stock_code start end t
        = (Inl StatementError, t @ [Acquire, Rollback, Release])"
    by (simp_all add: fetch_single_equity_def fetch_single_quity_adjustments_def
        session_scope_def)
next
  assume "Timestamp start = Inr (At s) \<and> Timestamp end = Inr (At e)"
  then show "take 2 (drop (length t)
        (snd (fetch_single_equity Timestamp db stock_code start end t))) = [Acquire, Query]"
    and "take 2 (drop (length t)
        (snd (fetch_single_quity_adjustments Timestamp db stock_code start end t)))
          = [Acquire, Query]"
    by (auto simp add: fetch_single_equity_def fetch_single_quity_adjustments_def
        session_scope_def query_all_def Let_def date_def bind_dates_def
        split: sum.splits prod.splits)
qed

theorem raising_dates_acquire_no_session_witness:
  "stamp_of Unreadable = Inl ParserError \<and>
   fetch_single_equity stamp_of example_db ''600000'' Unreadable (Instant 736800 0) []
     = (Inl ParserError, []) \<and>
   fetch_single_quity_adjustments stamp_of example_db ''600000'' Unreadable (Instant 736800 0) []
     = (Inl ParserError, []) \<and>
   stamp_of (Instant 736785 0) = Inr (At \<lparr>day = 736785, time_of_day = 0\<rparr>) \<and>
   fetch_single_equity stamp_of example_db ''600000'' (Instant 736785 0) Unreadable []
     = (Inl ParserError, []) \<and>
   fetch_single_quity_adjustments stamp_of example_db ''600000'' (Instant 736785 0) Unreadable []
     = (Inl ParserError, []) \<and>
   stamp_of Blank = Inr NaT \<and>
   fetch_single_quity_adjustments stamp_of example_db ''600000'' (Instant 736785 0) Blank []
     = (Inl StatementError, [Acquire, Rollback, Release])"
  using raising_dates_acquire_no_session
    [of stamp_of Unreadable ParserError example_db "''600000''" "Instant 736800 0" "[]"]
    raising_dates_acquire_no_session
    [of stamp_of "Instant 736785 0" ParserError example_db "''600000''" Unreadable "[]"
        "At \<lparr>day = 736785, time_of_day = 0\<rparr>"]
    raising_dates_acquire_no_session
    [of stamp_of "Instant 736785 0" _ example_db "''600000''" Blank "[]"
        "At \<lparr>day = 736785, time_of_day = 0\<rparr>" NaT]
  by (simp add: stamp_of_def)

text \<open>
  C10, as it is stated, fails: the empty string is no date, \<^verbatim>\<open>pd.Timestamp('')\<close> is
  \<^verbatim>\<open>NaT\<close> and raises nothing, and the call acquires a session before it fails.
\<close>

theorem fetch_single_equity_blank_start_acquires_session:
  "stamp_of Blank = Inr NaT \<and>
   fetch_single_equity stamp_of example_db ''600000'' Blank (Instant 736800 0) []
     = (Inl StatementError, [Acquire, Rollback, Release])"
  by (simp add: fetch_single_equity_def session_scope_def stamp_of_def date_def bind_dates_def)

subsection \<open>Steps of the metadata table\<close>

lemma series_map_Inr:
  "series_map f xs = Inr ys \<Longrightarrow> list_all2 (\<lambda>x y. f x = Inr y) xs ys"
  by (induction xs arbitrary: ys) (auto split: sum.splits)

lemma setitem_map_new_column:
  assumes "setitem_map df dst src f = Inr df'"
    and "get_loc (Name src) (columns df) = Some i"
    and "get_loc (Name dst) (columns df) = None"
  shows "columns df' = columns df @ [Name dst]"
    and "\<forall>row \<in> set (rows df'). \<exists>r \<in> set (rows df). \<exists>v. f (r ! i) = Inr v \<and> row = r @ [v]"
proof -
  from assms obtain vs where vs: "series_map f (map (\<lambda>r. r ! i) (rows df)) = Inr vs"
    and df': "df' = \<lparr>columns = columns df @ [Name dst],
                     rows = map (\<lambda>(r, v). r @ [v]) (zip (rows df) vs)\<rparr>"
    by (auto simp: setitem_map_def split: sum.splits)
  show "columns df' = columns df @ [Name dst]"
    by (simp add: df')
  have all2: "list_all2 (\<lambda>x y. f x = Inr y) (map (\<lambda>r. r ! i) (rows df)) vs"
    using vs by (rule series_map_Inr)
  show "\<forall>row \<in> set (rows df'). \<exists>r \<in> set (rows df). \<exists>v. f (r ! i) = Inr v \<and> row = r @ [v]"
  proof
    fix row assume "row \<in> set (rows df')"
    then obtain r v where rv: "(r, v) \<in> set (zip (rows df) vs)" and row: "row = r @ [v]"
      by (auto simp: df')
    from rv obtain n where n: "n < length (rows df)" "n < length vs"
      "rows df ! n = r" "vs ! n = v"
      by (auto simp: set_zip)
    from all2 n have "f (r ! i) = Inr v"
      by (auto simp: list_all2_conv_all_nth)
    moreover have "r \<in> set (rows df)"
      using n by auto
    ultimately show "\<exists>r \<in> set (rows df). \<exists>v. f (r ! i) = Inr v \<and> row = r @ [v]"
      using row by blast
  qed
qed

lemma merge_left_Inr:
  assumes "merge_left left right on = Inr m"
  shows "\<exists>j. get_loc (Name on) (columns right) = Some j \<and>
             columns m = columns left @ drop_nth j (columns right)"
    and "\<forall>row \<in> set (rows m). \<exists>l \<in> set (rows left). \<exists>ex. row = l @ ex"
proof -
  from assms obtain i j where i: "get_loc (Name on) (columns left) = Some i"
    and j: "get_loc (Name on) (columns right) = Some j"
    and m: "m = \<lparr>columns = columns left @ drop_nth j (columns right),
                 rows = concat (map (\<lambda>l.
                   (case filter (\<lambda>r. r ! j = l ! i) (rows right) of
                      [] \<Rightarrow> [l @ replicate (length (columns right) - 1) Null]
                    | ms \<Rightarrow> map (\<lambda>r. l @ drop_nth j r) ms)) (rows left))\<rparr>"
    by (auto simp: merge_left_def split: option.splits)
  show "\<exists>j. get_loc (Name on) (columns right) = Some j \<and>
             columns m = columns left @ drop_nth j (columns right)"
    using j m by simp
  show "\<forall>row \<in> set (rows m). \<exists>l \<in> set (rows left). \<exists>ex. row = l @ ex"
    unfolding m by (auto split: list.splits)
qed

lemma get_start_dates_columns:
  "get_start_dates db t = (Inr df, t') \<Longrightarrow> columns df = [Name ''symbol'', Name ''start_date'']"
  by (auto simp: get_start_dates_def session_scope_def query_all_def Let_def
      split: sum.splits prod.splits dest: set_columns_Inr)

lemma get_end_dates_columns:
  "get_end_dates db t = (Inr df, t') \<Longrightarrow> columns df = [Name ''symbol'', Name ''end_date'']"
  by (auto simp: get_end_dates_def session_scope_def query_all_def Let_def
      split: sum.splits prod.splits dest: set_columns_Inr)

lemma gen_asset_metadata_steps:
  assumes "gen_asset_metadata db t = (Inr out, t')"
  obtains df1 df2 df3 start_dates end_dates m t1 t2 t3 where
    "set_columns (from_records
        (map (\<lambda>(k, g). [Str k, Str (sd_A001 (bare_row (bare_daily db) g)),
                         Date (Min (set (map sd_date g))),
                         Date (Max (set (map sd_date g)))])
           (group_by sd_code (dailies db))))
        [''symbol'', ''asset_name'', ''first_traded'', ''last_traded''] = Inr df1"
    "setitem_map df1 ''exchange'' ''symbol'' get_exchange_cell = Inr df2"
    "setitem_map df2 ''auto_close_date'' ''last_traded'' (\<lambda>x. add_days x 1) = Inr df3"
    "get_start_dates db t1 = (Inr start_dates, t2)"
    "get_end_dates db t2 = (Inr end_dates, t3)"
    "merge_left df3 start_dates ''symbol'' = Inr m"
    "merge_left m end_dates ''symbol'' = Inr out"
  using assms
  by (auto simp: gen_asset_metadata_def session_scope_def query_all_def Let_def
      split: sum.splits prod.splits)

lemma group_by_member:
  "(k, g) \<in> set (group_by key rs) \<Longrightarrow> k \<in> key ` set rs \<and> g = filter (\<lambda>r. key r = k) rs"
  by (auto simp: group_by_def)

lemma loc4:
  "get_loc (Name ''symbol'') [Name ''symbol'', Name ''asset_name'', Name ''first_traded'',
      Name ''last_traded''] = Some 0"
  "get_loc (Name ''exchange'') [Name ''symbol'', Name ''asset_name'', Name ''first_traded'',
      Name ''last_traded''] = None"
  by simp_all

lemma loc5:
  "get_loc (Name ''last_traded'') [Name ''symbol'', Name ''asset_name'', Name ''first_traded'',
      Name ''last_traded'', Name ''exchange''] = Some (Suc (Suc (Suc 0)))"
  "get_loc (Name ''auto_close_date'') [Name ''symbol'', Name ''asset_name'',
      Name ''first_traded'', Name ''last_traded'', Name ''exchange''] = None"
  by simp_all

text \<open>
  Whenever \<open>gen_asset_metadata\<close> returns a table, the table has the eight columns, and
  every row starts with a symbol of the daily bars, a name, the first and the last date
  of the symbol's bars, the exchange of the symbol and the day after the last date.
\<close>

lemma gen_asset_metadata_Inr:
  fixes db :: "'n db"
  assumes "gen_asset_metadata db t = (Inr out, t')"
  shows "columns out = [Name ''symbol'', Name ''asset_name'', Name ''first_traded'',
                        Name ''last_traded'', Name ''exchange'', Name ''auto_close_date'',
                        Name ''start_date'', Name ''end_date'']"
    and "\<forall>row \<in> set (rows out). \<exists>k nm lo hi ex rest.
           row = [Str k, Str nm, Date lo, Date hi, Str ex, Date (hi + 1)] @ rest \<and>
           k \<in> sd_code ` set (dailies db) \<and> get_exchange k = Inr ex \<and>
           lo = Min (sd_date ` set (bars_of db k)) \<and> hi = Max (sd_date ` set (bars_of db k))"
proof -
  from assms obtain df1 df2 df3 start_dates end_dates m t1 t2 t3 where
    s1: "set_columns (from_records
        (map (\<lambda>(k, g). [Str k, Str (sd_A001 (bare_row (bare_daily db) g)),
                         Date (Min (set (map sd_date g))),
                         Date (Max (set (map sd_date g)))])
           (group_by sd_code (dailies db))))
        [''symbol'', ''asset_name'', ''first_traded'', ''last_traded''] = Inr df1"
    and s2: "setitem_map df1 ''exchange'' ''symbol'' get_exchange_cell = Inr df2"
    and s3: "setitem_map df2 ''auto_close_date'' ''last_traded'' (\<lambda>x. add_days x 1) = Inr df3"
    and s4: "get_start_dates db t1 = (Inr start_dates, t2)"
    and s5: "get_end_dates db t2 = (Inr end_dates, t3)"
    and s6: "merge_left df3 start_dates ''symbol'' = Inr m"
    and s7: "merge_left m end_dates ''symbol'' = Inr out"
    by (rule gen_asset_metadata_steps)
  define ok where "ok k lo hi \<longleftrightarrow> k \<in> sd_code ` set (dailies db) \<and>
      lo = Min (sd_date ` set (bars_of db k)) \<and> hi = Max (sd_date ` set (bars_of db k))"
    for k lo hi
  have c1: "columns df1 = [Name ''symbol'', Name ''asset_name'', Name ''first_traded'',
                           Name ''last_traded'']"
    using set_columns_Inr [OF s1] by simp
  have r1: "\<forall>r \<in> set (rows df1). \<exists>k nm lo hi.
              r = [Str k, Str nm, Date lo, Date hi] \<and> ok k lo hi"
  proof
    fix r assume "r \<in> set (rows df1)"
    then have "r \<in> set (map (\<lambda>(k, g). [Str k, Str (sd_A001 (bare_row (bare_daily db) g)),
                         Date (Min (set (map sd_date g))),
                         Date (Max (set (map sd_date g)))])
           (group_by sd_code (dailies db)))"
      using set_columns_Inr [OF s1] by (auto simp: from_records_def split: list.splits)
    then obtain k g where kg: "(k, g) \<in> set (group_by sd_code (dailies db))"
      and r: "r = [Str k, Str (sd_A001 (bare_row (bare_daily db) g)),
                Date (Min (set (map sd_date g))), Date (Max (set (map sd_date g)))]"
      by auto
    from group_by_member [OF kg] have "k \<in> sd_code ` set (dailies db)" and "g = bars_of db k"
      by (simp_all add: bars_of_def)
    then have "ok k (Min (set (map sd_date g))) (Max (set (map sd_date g)))"
      by (simp add: ok_def)
    with r show "\<exists>k nm lo hi. r = [Str k, Str nm, Date lo, Date hi] \<and> ok k lo hi"
      by blast
  qed
  have c2: "columns df2 = [Name ''symbol'', Name ''asset_name'', Name ''first_traded'',
                           Name ''last_traded'', Name ''exchange'']"
    using setitem_map_new_column(1) [OF s2, of 0] loc4 by (simp add: c1)
  have r2: "\<forall>r \<in> set (rows df2). \<exists>k nm lo hi ex.
              r = [Str k, Str nm, Date lo, Date hi, Str ex] \<and>
              ok k lo hi \<and> get_exchange k = Inr ex"
  proof
    fix r assume "r \<in> set (rows df2)"
    then obtain r0 v where r0: "r0 \<in> set (rows df1)" and v: "get_exchange_cell (r0 ! 0) = Inr v"
      and r: "r = r0 @ [v]"
      using setitem_map_new_column(2) [OF s2, of 0] loc4 unfolding c1 by blast
    from r1 r0 obtain k nm lo hi where r0': "r0 = [Str k, Str nm, Date lo, Date hi]"
      and k: "ok k lo hi"
      by blast
    from v have "get_exchange_cell (Str k :: 'n cell) = Inr v"
      by (simp add: r0')
    then obtain ex where "get_exchange k = Inr ex" and "v = Str ex"
      by (cases "get_exchange k") (simp_all add: get_exchange_cell_def)
    then show "\<exists>k nm lo hi ex. r = [Str k, Str nm, Date lo, Date hi, Str ex] \<and>
                 ok k lo hi \<and> get_exchange k = Inr ex"
      using r r0' k by auto
  qed
  have c3: "columns df3 = [Name ''symbol'', Name ''asset_name'', Name ''first_traded'',
                           Name ''last_traded'', Name ''exchange'', Name ''auto_close_date'']"
    using setitem_map_new_column(1) [OF s3, of "Suc (Suc (Suc 0))"] loc5 by (simp add: c2)
  have r3: "\<forall>r \<in> set (rows df3). \<exists>k nm lo hi ex.
              r = [Str k, Str nm, Date lo, Date hi, Str ex, Date (hi + 1)] \<and>
              ok k lo hi \<and> get_exchange k = Inr ex"
  proof
    fix r assume "r \<in> set (rows df3)"
    then obtain r0 v where r0: "r0 \<in> set (rows df2)"
      and v: "add_days (r0 ! Suc (Suc (Suc 0))) 1 = Inr v"
      and r: "r = r0 @ [v]"
      using setitem_map_new_column(2) [OF s3, of "Suc (Suc (Suc 0))"] loc5 unfolding c2 by blast
    from r2 r0 obtain k nm lo hi ex where r0': "r0 = [Str k, Str nm, Date lo, Date hi, Str ex]"
      and k: "ok k lo hi" "get_exchange k = Inr ex"
      by blast
    from v have "add_days (Date hi :: 'n cell) 1 = Inr v"
      by (simp add: r0')
    then have "v = Date (hi + 1)"
      by (simp add: add_days_def split: if_splits)
    then show "\<exists>k nm lo hi ex. r = [Str k, Str nm, Date lo, Date hi, Str ex, Date (hi + 1)] \<and>
                 ok k lo hi \<and> get_exchange k = Inr ex"
      using r r0' k by auto
  qed
  have cm: "columns m = columns df3 @ [Name ''start_date'']"
    using merge_left_Inr(1) [OF s6] get_start_dates_columns [OF s4]
    by (auto simp: drop_nth_def)
  have "columns out = columns m @ [Name ''end_date'']"
    using merge_left_Inr(1) [OF s7] get_end_dates_columns [OF s5]
    by (auto simp: drop_nth_def)
  then show "columns out = [Name ''symbol'', Name ''asset_name'', Name ''first_traded'',
                        Name ''last_traded'', Name ''exchange'', Name ''auto_close_date'',
                        Name ''start_date'', Name ''end_date'']"
    by (simp add: cm c3)
  have "\<forall>row \<in> set (rows out). \<exists>k nm lo hi ex rest.
           row = [Str k, Str nm, Date lo, Date hi, Str ex, Date (hi + 1)] @ rest \<and>
           ok k lo hi \<and> get_exchange k = Inr ex"
  proof
    fix row assume "row \<in> set (rows out)"
    then obtain l1 ex1 where l1: "l1 \<in> set (rows m)" and row: "row = l1 @ ex1"
      using merge_left_Inr(2) [OF s7] by blast
    from l1 obtain l0 ex0 where l0: "l0 \<in> set (rows df3)" and l1': "l1 = l0 @ ex0"
      using merge_left_Inr(2) [OF s6] by blast
    from r3 l0 obtain k nm lo hi ex where
      "l0 = [Str k, Str nm, Date lo, Date hi, Str ex, Date (hi + 1)]"
      "ok k lo hi" "get_exchange k = Inr ex"
      by blast
    then have "row = [Str k, Str nm, Date lo, Date hi, Str ex, Date (hi + 1)] @ (ex0 @ ex1) \<and>
           ok k lo hi \<and> get_exchange k = Inr ex"
      using row l1' by simp
    then show "\<exists>k nm lo hi ex rest.
           row = [Str k, Str nm, Date lo, Date hi, Str ex, Date (hi + 1)] @ rest \<and>
           ok k lo hi \<and> get_exchange k = Inr ex"
      by blast
  qed
  then have main: "\<forall>row \<in> set (rows out). \<exists>k nm lo hi ex rest.
           row = [Str k, Str nm, Date lo, Date hi, Str ex, Date (hi + 1)] @ rest \<and>
           ok k lo hi \<and> get_exchange k = Inr ex" .
  show "\<forall>row \<in> set (rows out). \<exists>k nm lo hi ex rest.
           row = [Str k, Str nm, Date lo, Date hi, Str ex, Date (hi + 1)] @ rest \<and>
           k \<in> sd_code ` set (dailies db) \<and> get_exchange k = Inr ex \<and>
           lo = Min (sd_date ` set (bars_of db k)) \<and> hi = Max (sd_date ` set (bars_of db k))"
  proof
    fix row assume "row \<in> set (rows out)"
    with main obtain k nm lo hi ex rest where
      row: "row = [Str k, Str nm, Date lo, Date hi, Str ex, Date (hi + 1)] @ rest"
      and ok: "ok k lo hi" and ex: "get_exchange k = Inr ex"
      by blast
    from ok have "k \<in> sd_code ` set (dailies db)"
      and "lo = Min (sd_date ` set (bars_of db k))"
      and "hi = Max (sd_date ` set (bars_of db k))"
      by (simp_all add: ok_def)
    with row ex have "row = [Str k, Str nm, Date lo, Date hi, Str ex, Date (hi + 1)] @ rest \<and>
           k \<in> sd_code ` set (dailies db) \<and> get_exchange k = Inr ex \<and>
           lo = Min (sd_date ` set (bars_of db k)) \<and> hi = Max (sd_date ` set (bars_of db k))"
      by (intro conjI)
    then show "\<exists>k nm lo hi ex rest.
           row = [Str k, Str nm, Date lo, Date hi, Str ex, Date (hi + 1)] @ rest \<and>
           k \<in> sd_code ` set (dailies db) \<and> get_exchange k = Inr ex \<and>
           lo = Min (sd_date ` set (bars_of db k)) \<and> hi = Max (sd_date ` set (bars_of db k))"
      by iprover
  qed
qed

subsection \<open>The small store, run\<close>

lemma get_start_dates_example:
  "get_start_dates example_db t =
     (Inr \<lparr>columns = [Name ''symbol'', Name ''start_date''],
           rows = [[Str ''000001'', Date 726925], [Str ''000003'', Date 726846]]\<rparr>,
      t @ [Acquire, Query, Commit, Release])"
  by (simp add: get_start_dates_def run_defs example_defs)

lemma get_end_dates_example:
  "get_end_dates example_db t =
     (Inr \<lparr>columns = [Name ''symbol'', Name ''end_date''],
           rows = [[Str ''000003'', Date 731015]]\<rparr>,
      t @ [Acquire, Query, Commit, Release])"
  by (simp add: get_end_dates_def run_defs example_defs)

lemma gen_asset_metadata_example:
  "gen_asset_metadata example_db [] =
     (Inr example_metadata,
      [Acquire, Query, Acquire, Query, Commit, Release, Acquire, Query, Commit, Release,
       Commit, Release])"
  unfolding gen_asset_metadata_def get_start_dates_example get_end_dates_example
  by (simp add: run_defs example_defs setitem_map_def merge_left_def drop_nth_def
      get_exchange_cell_def get_exchange_def add_days_def example_metadata_def)

subsection \<open>The metadata table\<close>

text \<open>
  C6. The exchange of a symbol with a first character is \<^verbatim>\<open>"SZSE"\<close> exactly when that
  character is 0 or 3, and \<^verbatim>\<open>"SSE"\<close> otherwise; in every row of a table that
  \<open>gen_asset_metadata\<close> returns, the column \<open>exchange\<close> holds the exchange of the
  row's \<open>symbol\<close> by this rule.
\<close>

theorem exchange_by_first_character:
  "(\<forall>c cs. get_exchange (c # cs)
       = Inr (if c = CHR ''0'' \<or> c = CHR ''3'' then ''SZSE'' else ''SSE'')) \<and>
   (gen_asset_metadata db t = (Inr out, t') \<longrightarrow>
      columns out ! 0 = Name ''symbol'' \<and> columns out ! 4 = Name ''exchange'' \<and>
      (\<forall>row \<in> set (rows out). \<exists>c cs.
         row ! 0 = Str (c # cs) \<and>
         row ! 4 = Str (if c = CHR ''0'' \<or> c = CHR ''3'' then ''SZSE'' else ''SSE'')))"
proof (intro conjI impI allI)
  fix c cs
  show "get_exchange (c # cs) = Inr (if c = CHR ''0'' \<or> c = CHR ''3'' then ''SZSE'' else ''SSE'')"
    by (simp add: get_exchange_def)
next
  assume run: "gen_asset_metadata db t = (Inr out, t')"
  show "columns out ! 0 = Name ''symbol''" and "columns out ! 4 = Name ''exchange''"
    by (simp_all add: gen_asset_metadata_Inr(1) [OF run])
  show "\<forall>row \<in> set (rows out). \<exists>c cs.
         row ! 0 = Str (c # cs) \<and>
         row ! 4 = Str (if c = CHR ''0'' \<or> c = CHR ''3'' then ''SZSE'' else ''SSE'')"
  proof
    fix row assume "row \<in> set (rows out)"
    with gen_asset_metadata_Inr(2) [OF run] have "\<exists>k nm lo hi ex rest.
        row = [Str k, Str nm, Date lo, Date hi, Str ex, Date (hi + 1)] @ rest \<and>
        k \<in> sd_code ` set (dailies db) \<and> get_exchange k = Inr ex \<and>
        lo = Min (sd_date ` set (bars_of db k)) \<and> hi = Max (sd_date ` set (bars_of db k))"
      by (rule bspec)
    then obtain k nm lo hi ex rest where
      row: "row = [Str k, Str nm, Date lo, Date hi, Str ex, Date (hi + 1)] @ rest"
      and ex: "get_exchange k = Inr ex"
      by iprover
    from ex obtain c cs where k: "k = c # cs"
      by (cases k) (simp_all add: get_exchange_def)
    with ex have "ex = (if c = CHR ''0'' \<or> c = CHR ''3'' then ''SZSE'' else ''SSE'')"
      by (auto simp: get_exchange_def split: if_splits)
    then show "\<exists>c cs. row ! 0 = Str (c # cs) \<and>
         row ! 4 = Str (if c = CHR ''0'' \<or> c = CHR ''3'' then ''SZSE'' else ''SSE'')"
      using row k by simp
  qed
qed

theorem exchange_by_first_character_witness:
  "gen_asset_metadata example_db [] =
     (Inr example_metadata,
      [Acquire, Query, Acquire, Query, Commit, Release, Acquire, Query, Commit, Release,
       Commit, Release]) \<and>
   map (\<lambda>row. (row ! 0, row ! 4)) (rows example_metadata) =
     [(Str ''000001'', Str ''SZSE''), (Str ''000003'', Str ''SZSE''), (Str ''600000'', Str ''SSE'')]"
  using exchange_by_first_character [of example_db "[]" example_metadata]
    gen_asset_metadata_example
  by (simp add: example_metadata_def)

text \<open>
  C7. In every row of a table that \<open>gen_asset_metadata\<close> returns, \<open>last_traded\<close> is the
  last date of the symbol's daily bars and \<open>auto_close_date\<close> is the day after it: a
  date, never null.
\<close>

theorem auto_close_date_is_next_day:
  assumes "gen_asset_metadata db t = (Inr out, t')"
  shows "columns out ! 0 = Name ''symbol'' \<and> columns out ! 3 = Name ''last_traded'' \<and>
         columns out ! 5 = Name ''auto_close_date'' \<and>
         (\<forall>row \<in> set (rows out). \<exists>k d.
            row ! 0 = Str k \<and> d = Max (sd_date ` set (bars_of db k)) \<and>
            row ! 3 = Date d \<and> row ! 5 = Date (d + 1))"
proof (intro conjI ballI)
  show "columns out ! 0 = Name ''symbol''" and "columns out ! 3 = Name ''last_traded''"
    and "columns out ! 5 = Name ''auto_close_date''"
    by (simp_all add: gen_asset_metadata_Inr(1) [OF assms])
next
  fix row assume "row \<in> set (rows out)"
  with gen_asset_metadata_Inr(2) [OF assms] have "\<exists>k nm lo hi ex rest.
      row = [Str k, Str nm, Date lo, Date hi, Str ex, Date (hi + 1)] @ rest \<and>
      k \<in> sd_code ` set (dailies db) \<and> get_exchange k = Inr ex \<and>
      lo = Min (sd_date ` set (bars_of db k)) \<and> hi = Max (sd_date ` set (bars_of db k))"
    by (rule bspec)
  then obtain k nm lo hi ex rest where
    "row = [Str k, Str nm, Date lo, Date hi, Str ex, Date (hi + 1)] @ rest"
    and "hi = Max (sd_date ` set (bars_of db k))"
    by iprover
  then have "row ! 0 = Str k \<and> hi = Max (sd_date ` set (bars_of db k)) \<and>
      row ! 3 = Date hi \<and> row ! 5 = Date (hi + 1)"
    by simp
  then show "\<exists>k d. row ! 0 = Str k \<and> d = Max (sd_date ` set (bars_of db k)) \<and>
      row ! 3 = Date d \<and> row ! 5 = Date (d + 1)"
    by iprover
qed

theorem auto_close_date_is_next_day_witness:
  "gen_asset_metadata example_db [] =
     (Inr example_metadata,
      [Acquire, Query, Acquire, Query, Commit, Release, Acquire, Query, Commit, Release,
       Commit, Release]) \<and>
   map (\<lambda>row. (row ! 3, row ! 5)) (rows example_metadata) =
     [(Date 736801, Date 736802), (Date 730966, Date 730967), (Date 736800, Date 736801)]"
  using auto_close_date_is_next_day [of example_db "[]" example_metadata]
    gen_asset_metadata_example
  by (simp add: example_metadata_def)

text \<open>
  C3. The claim has \<open>gen_asset_metadata\<close> return, for every store, one row for each
  symbol of the daily bars, with a null \<open>end_date\<close> for a symbol without a delisting
  or PT event. In a store where no symbol has such an event, \<open>get_end_dates\<close> finds no
  group, names the two columns of a table that has none and raises \<^verbatim>\<open>ValueError\<close>;
  \<open>gen_asset_metadata\<close> calls it and raises with it, after the listing dates were read.
\<close>

theorem gen_asset_metadata_no_end_dates_raises:
  "gen_asset_metadata (example_db\<lparr>treatments := []\<rparr>) [] =
     (Inl ValueError,
      [Acquire, Query, Acquire, Query, Commit, Release, Acquire, Query, Rollback, Release,
       Rollback, Release])"
  by (simp add: gen_asset_metadata_def get_start_dates_def get_end_dates_def
      run_defs example_defs setitem_map_def merge_left_def drop_nth_def
      get_exchange_cell_def get_exchange_def add_days_def)

subsection \<open>End dates\<close>

lemma bare_row_in_group: "g \<noteq> [] \<Longrightarrow> bare_row pick g \<in> set g"
  by (simp add: bare_row_def)

lemma end_dates_query:
  "map (\<lambda>(k, g). [Str k, Date (Max (set (map st_date g)))])
     (filter (\<lambda>(k, g). st_treatment (bare_row (bare_treatment db) g) \<in> {delisting, PT})
        (group_by st_code (treatments db)))
   = map (\<lambda>k. [Str k, Date (Max (st_date ` set (events_of db k)))])
       (filter (\<lambda>k. st_treatment (having_row db k) \<in> {delisting, PT})
          (sort (remdups (map st_code (treatments db)))))"
  by (simp add: group_by_def filter_map o_def events_of_def having_row_def)

text \<open>
  C1, as the code has it. The \<^verbatim>\<open>having\<close> clause names the treatment outside an
  aggregate, so the engine tests it on one row of each group, \<open>having_row\<close> (under
  SQLite the row that holds the latest date). When at least one group passes,
  \<open>get_end_dates\<close> returns the columns symbol and end_date and exactly the symbols whose
  \<open>having_row\<close> is a delisting or PT event, each once, with the latest date of all
  events of the symbol; every symbol returned has an event of kind delisting or PT.
\<close>

theorem get_end_dates_by_having_row:
  fixes db :: "'n db"
  assumes "\<exists>ev \<in> set (treatments db).
             st_treatment (having_row db (st_code ev)) \<in> {delisting, PT}"
  shows "\<exists>df. get_end_dates db t = (Inr df, t @ [Acquire, Query, Commit, Release]) \<and>
           columns df = [Name ''symbol'', Name ''end_date''] \<and>
           set (rows df) =
             {[Str k, Date (Max (st_date ` set (events_of db k)))] | k.
                k \<in> st_code ` set (treatments db) \<and>
                st_treatment (having_row db k) \<in> {delisting, PT}} \<and>
           distinct (map (\<lambda>row. row ! 0) (rows df)) \<and>
           (\<forall>row \<in> set (rows df). \<exists>ev \<in> set (treatments db).
              row ! 0 = Str (st_code ev) \<and> st_treatment ev \<in> {delisting, PT})"
proof -
  let ?ks = "filter (\<lambda>k. st_treatment (having_row db k) \<in> {delisting, PT})
               (sort (remdups (map st_code (treatments db))))"
  let ?recs = "map (\<lambda>k. [Str k, Date (Max (st_date ` set (events_of db k)))]) ?ks"
  let ?df = "\<lparr>columns = [Name ''symbol'', Name ''end_date''], rows = ?recs\<rparr> :: 'n frame"
  from assms obtain ev where "ev \<in> set (treatments db)"
    and "st_treatment (having_row db (st_code ev)) \<in> {delisting, PT}"
    by blast
  then have "st_code ev \<in> set ?ks"
    by simp
  then have ne: "?recs \<noteq> []"
    by (auto simp del: set_filter)
  then have "length (hd ?recs) = length [''symbol'', ''end_date'']"
    by (simp add: hd_map)
  with ne have sc: "set_columns (from_records ?recs) [''symbol'', ''end_date''] = Inr ?df"
    using set_columns_from_records [of ?recs "[''symbol'', ''end_date'']"] by simp
  have run: "get_end_dates db t = (Inr ?df, t @ [Acquire, Query, Commit, Release])"
    unfolding get_end_dates_def end_dates_query
    by (simp only: session_scope_def query_all_def Let_def prod.case sc sum.case
        append_assoc append.simps)
  have rows: "set (rows ?df) =
      {[Str k, Date (Max (st_date ` set (events_of db k)))] | k.
         k \<in> st_code ` set (treatments db) \<and>
         st_treatment (having_row db k) \<in> {delisting, PT}}"
    by auto
  have "map (\<lambda>row. row ! 0) ?recs = map Str ?ks"
    by simp
  moreover have "distinct (map Str ?ks)"
    by (simp add: distinct_map inj_on_def)
  ultimately have dist: "distinct (map (\<lambda>row. row ! 0) (rows ?df))"
    by (simp add: o_def)
  have some: "\<forall>row \<in> set (rows ?df). \<exists>ev \<in> set (treatments db).
      row ! 0 = Str (st_code ev) \<and> st_treatment ev \<in> {delisting, PT}"
  proof
    fix row assume "row \<in> set (rows ?df)"
    then obtain k where k: "k \<in> st_code ` set (treatments db)"
      and q: "st_treatment (having_row db k) \<in> {delisting, PT}"
      and row: "row = [Str k, Date (Max (st_date ` set (events_of db k)))]"
      by auto
    from k have "events_of db k \<noteq> []"
      by (auto simp: events_of_def filter_empty_conv)
    then have "having_row db k \<in> set (events_of db k)"
      unfolding having_row_def by (rule bare_row_in_group)
    then have "having_row db k \<in> set (treatments db)" and "st_code (having_row db k) = k"
      by (simp_all add: events_of_def)
    with q row show "\<exists>ev \<in> set (treatments db).
        row ! 0 = Str (st_code ev) \<and> st_treatment ev \<in> {delisting, PT}"
      by (intro bexI [of _ "having_row db k"]) simp_all
  qed
  show ?thesis
    using run rows dist some by (intro exI [of _ ?df]) simp
qed

theorem get_end_dates_by_having_row_witness:
  "having_row example_db ''000003''
     = \<lparr>st_code = ''000003'', st_date = 731015, st_treatment = delisting\<rparr> \<and>
   having_row example_db ''000004''
     = \<lparr>st_code = ''000004'', st_date = 730824, st_treatment = other_treatment 0\<rparr> \<and>
   get_end_dates example_db [] =
     (Inr \<lparr>columns = [Name ''symbol'', Name ''end_date''],
           rows = [[Str ''000003'', Date 731015]]\<rparr>,
      [Acquire, Query, Commit, Release])"
proof -
  have h: "\<exists>ev \<in> set (treatments example_db).
             st_treatment (having_row example_db (st_code ev)) \<in> {delisting, PT}"
    by (simp add: having_row_def events_of_def example_defs)
  from get_end_dates_by_having_row [OF h, of "[]"]
  obtain df where run: "get_end_dates example_db [] = (Inr df, [] @ [Acquire, Query, Commit, Release])"
    by blast
  have rep3: "having_row example_db ''000003''
     = \<lparr>st_code = ''000003'', st_date = 731015, st_treatment = delisting\<rparr>"
    by (simp add: having_row_def events_of_def example_defs)
  have rep4: "having_row example_db ''000004''
     = \<lparr>st_code = ''000004'', st_date = 730824, st_treatment = other_treatment 0\<rparr>"
    by (simp add: having_row_def events_of_def example_defs)
  show ?thesis
    using run rep3 rep4 get_end_dates_example [of "[]"] by simp
qed

text \<open>
  C1, as it is stated, fails: symbol 000004 has a PT event, and the latest event of
  its group is of another kind. Under SQLite's rule the symbol is not returned.
\<close>

theorem get_end_dates_omits_resumed_symbol:
  "\<lparr>st_code = ''000004'', st_date = 730614, st_treatment = PT\<rparr> \<in> set (treatments example_db) \<and>
   get_end_dates example_db [] =
     (Inr \<lparr>columns = [Name ''symbol'', Name ''end_date''],
           rows = [[Str ''000003'', Date 731015]]\<rparr>,
      [Acquire, Query, Commit, Release])"
  by (simp add: get_end_dates_def run_defs example_defs)

end
